theory Spec2Isabelle
  imports Complex_Main
begin

section \<open>Data model (types.ts)\<close>

text \<open>
  JavaScript strings are modelled as \<^typ>\<open>string\<close>: code units in the range 0..255.
  Numbers read from the clock (\<^verbatim>\<open>Date.now()\<close>) are integers.
\<close>

datatype ModelTarget = GEMINI | GPT4 | CLAUDE | GENERAL

text \<open>The string value of each enum member, as a template literal prints it.\<close>

fun ModelTarget_value :: "ModelTarget \<Rightarrow> string" where
  "ModelTarget_value GEMINI = ''GEMINI''"
| "ModelTarget_value GPT4 = ''GPT4''"
| "ModelTarget_value CLAUDE = ''CLAUDE''"
| "ModelTarget_value GENERAL = ''GENERAL''"

text \<open>
  The interface \<^verbatim>\<open>PromptResult\<close> is a compile-time annotation only: at run time the value
  returned by \<^verbatim>\<open>generatePrompt\<close> is whatever \<^verbatim>\<open>JSON.parse\<close> produced, cast with
  \<^verbatim>\<open>data as PromptResult\<close>. Results are therefore JSON values. Numbers are kept as
  rationals (the overflow of a literal to Infinity is not represented; no code inspects a
  number except for truthiness). An object is the list of its properties, each key once, as
  \<^verbatim>\<open>JSON.parse\<close> builds it.
\<close>

datatype json =
    JNull
  | JBool bool
  | JNum rat
  | JStr string
  | JArr "json list"
  | JObj "(string \<times> json) list"

datatype Role = User | Assistant

record Message =
  id_msg :: string
  role :: Role
  content :: string
  result :: "json option"
  timestamp :: int

text \<open>
  The shape that the interface \<^verbatim>\<open>PromptResult\<close> of types.ts declares:
  \<^verbatim>\<open>optimizedPrompt: string; logic: string; modelTip: string;
  clarifyingQuestions?: string[]; isClarificationNeeded: boolean\<close>.
\<close>

fun is_JStr :: "json \<Rightarrow> bool" where
  "is_JStr (JStr s) = True"
| "is_JStr j = False"

fun is_JBool :: "json \<Rightarrow> bool" where
  "is_JBool (JBool b) = True"
| "is_JBool j = False"

fun is_JObj :: "json \<Rightarrow> bool" where
  "is_JObj (JObj props) = True"
| "is_JObj j = False"

fun is_JStr_array :: "json \<Rightarrow> bool" where
  "is_JStr_array (JArr xs) = list_all is_JStr xs"
| "is_JStr_array j = False"

definition has_field :: "(json \<Rightarrow> bool) \<Rightarrow> (string \<times> json) list \<Rightarrow> string \<Rightarrow> bool" where
  "has_field ty props k = (case map_of props k of None \<Rightarrow> False | Some v \<Rightarrow> ty v)"

definition has_optional_field :: "(json \<Rightarrow> bool) \<Rightarrow> (string \<times> json) list \<Rightarrow> string \<Rightarrow> bool" where
  "has_optional_field ty props k = (case map_of props k of None \<Rightarrow> True | Some v \<Rightarrow> ty v)"

fun is_PromptResult :: "json \<Rightarrow> bool" where
  "is_PromptResult (JObj props) =
     (has_field is_JStr props ''optimizedPrompt'' \<and>
      has_field is_JStr props ''logic'' \<and>
      has_field is_JStr props ''modelTip'' \<and>
      has_optional_field is_JStr_array props ''clarifyingQuestions'' \<and>
      has_field is_JBool props ''isClarificationNeeded'')"
| "is_PromptResult j = False"

section \<open>The generation client (services/geminiService.ts)\<close>

definition LF :: char where
  "LF = CHR 0x0A"

definition SYSTEM_INSTRUCTION :: string where
  \<open>SYSTEM_INSTRUCTION = [LF] @ concat (map (\<lambda>l. l @ [LF])
   [''You are a World-Class Prompt Engineer and AI Architect. Your goal is to help users formulate the most effective, high-performing prompts for any LLM (Gemini, GPT-4, Claude, Llama). '',
    '''',
    ''You follow the "PTCF" framework: Persona, Task, Context, and Format.'',
    '''',
    ''Your Process:'',
    ''1. Ask Clarifying Questions: If the user's request is vague or lacks sufficient detail to create a world-class prompt, set isClarificationNeeded to true and provide 2-3 targeted questions.'',
    ''2. Draft the Prompt: Provide a structured, "state-of-the-art" prompt.'',
    ''3. Explain the Logic: Briefly explain why you chose certain structures (e.g., "I used XML tags here because Claude performs better with them").'',
    '''',
    ''Architecture Standards:'',
    ''- For Claude: Use XML tags (e.g., <context>, <task>) and include a <thinking> scratchpad section.'',
    ''- For GPT-4/Gemini: Use Markdown headers (##), bolding for emphasis, and clear step-by-step instructions.'',
    ''- General: Use "Few-Shot" examples (placeholders where the user can add examples) and "Chain of Thought" triggers (e.g., "Think step-by-step").'',
    '''',
    ''Output Schema:'',
    ''You MUST respond in JSON format matching the defined schema.''])\<close>

text \<open>One entry of \<^verbatim>\<open>contents\<close>: \<^verbatim>\<open>{ role, parts: [{ text }] }\<close>.\<close>

record Part =
  text_p :: string

record Content =
  role_c :: string
  parts :: "Part list"

text \<open>The response schema of the request (the \<^verbatim>\<open>Type\<close> tags of the SDK).\<close>

datatype Schema =
    BOOLEAN
  | STRING "string option"
  | ARRAY Schema "string option"
  | OBJECT "(string \<times> Schema) list" "string list"

record Config =
  systemInstruction :: string
  responseMimeType :: string
  responseSchema :: Schema

record GenerateContentParameters =
  model :: string
  contents :: "Content list"
  config :: Config

text \<open>What the code reads of the SDK's response: the getter \<^verbatim>\<open>text\<close>, a string or undefined.\<close>

record GenerateContentResponse =
  text_r :: "string option"

text \<open>
  The errors a call of \<^verbatim>\<open>generatePrompt\<close> can reject with: an error of the remote call,
  passed through as it is, or the \<^verbatim>\<open>new Error("Invalid response from AI")\<close> of the
  catch block.
\<close>

datatype 'e error = Remote 'e | InvalidResponse

text \<open>\<^verbatim>\<open>a || b\<close> on an optional string: the empty string and undefined are both falsy.\<close>

fun or_else :: "string option \<Rightarrow> string \<Rightarrow> string" where
  "or_else None d = d"
| "or_else (Some s) d = (if s = [] then d else s)"

definition responseSchema_const :: Schema where
  "responseSchema_const = OBJECT
     [(''isClarificationNeeded'', BOOLEAN),
      (''clarifyingQuestions'', ARRAY (STRING None) (Some ''2-3 questions if clarification is needed'')),
      (''optimizedPrompt'', STRING (Some ''The actual generated prompt if clarification is NOT needed'')),
      (''logic'', STRING (Some ''Explanation of prompt engineering techniques used'')),
      (''modelTip'', STRING (Some ''One specific tip for the target model''))]
     [''isClarificationNeeded'', ''logic'', ''modelTip'']"

text \<open>The argument of \<^verbatim>\<open>ai.models.generateContent\<close> (lines 31 to 65).\<close>

definition generateContent_params ::
  "string \<Rightarrow> ModelTarget \<Rightarrow> Content list \<Rightarrow> GenerateContentParameters" where
  "generateContent_params userInput targetModel history =
     \<lparr> model = ''gemini-3-pro-preview'',
       contents = history @
         [\<lparr> role_c = ''user'',
            parts = [\<lparr> text_p = ''Target Model: '' @ ModelTarget_value targetModel @ [LF] @
                              ''User Request: '' @ userInput \<rparr>] \<rparr>],
       config = \<lparr> systemInstruction = SYSTEM_INSTRUCTION,
                  responseMimeType = ''application/json'',
                  responseSchema = responseSchema_const \<rparr> \<rparr>"

text \<open>
  \<^verbatim>\<open>generatePrompt\<close>. The environment is given by three parameters:
  \<^item> \<open>JSON_parse\<close>, the runtime's \<^verbatim>\<open>JSON.parse\<close>: \<open>None\<close> when it throws a SyntaxError;
  \<^item> \<open>generateContent\<close>, the SDK client built from the API key and its remote call:
    \<open>Inl e\<close> when the awaited promise rejects with \<open>e\<close>;
  \<^item> \<open>API_KEY\<close>, the value of \<^verbatim>\<open>process.env.API_KEY\<close>.
  The await is outside the try block, so a rejection of the remote call leaves the function
  as it is; only the parse is guarded.
\<close>

definition generatePrompt ::
  "(string \<Rightarrow> json option) \<Rightarrow> (string \<Rightarrow> GenerateContentParameters \<Rightarrow> 'e + GenerateContentResponse) \<Rightarrow>
   string option \<Rightarrow> string \<Rightarrow> ModelTarget \<Rightarrow> Content list \<Rightarrow> 'e error + json" where
  "generatePrompt JSON_parse generateContent API_KEY userInput targetModel history =
     (case generateContent (or_else API_KEY []) (generateContent_params userInput targetModel history) of
        Inl e \<Rightarrow> Inl (Remote e)
      | Inr response \<Rightarrow>
          (case JSON_parse (or_else (text_r response) ''{}'') of
             None \<Rightarrow> Inl InvalidResponse
           | Some data \<Rightarrow> Inr data))"

text \<open>
  The claim "the payload can be parsed as the expected structured shape", in the spec's
  words: the text the remote call returned is there, it is JSON, and the value has the shape
  of a \<^verbatim>\<open>PromptResult\<close>.
\<close>

definition payload_parses_as_PromptResult ::
  "(string \<Rightarrow> json option) \<Rightarrow> GenerateContentResponse \<Rightarrow> bool" where
  "payload_parses_as_PromptResult JSON_parse response =
     (case text_r response of
        None \<Rightarrow> False
      | Some t \<Rightarrow> (case JSON_parse t of None \<Rightarrow> False | Some j \<Rightarrow> is_PromptResult j))"

text \<open>
  \<^verbatim>\<open>JSON.parse\<close> belongs to the runtime; the theorems hold for every parser. For closed
  examples its value is fixed on five texts where the JSON grammar leaves no doubt: the empty
  object, the empty array and the literal null parse; the empty text and the text
  \<^verbatim>\<open>not json\<close> are SyntaxErrors. The examples apply it to these texts only.
\<close>

definition JSON_parse_sample :: "string \<Rightarrow> json option" where
  "JSON_parse_sample t =
     (if t = ''{}'' then Some (JObj [])
      else if t = ''[]'' then Some (JArr [])
      else if t = ''null'' then Some JNull
      else None)"

section \<open>The conversation controller (the App component)\<close>

text \<open>
  The characters that \<^verbatim>\<open>String.prototype.trim\<close> removes, among the code units 0..255:
  tab, line feed, vertical tab, form feed, carriage return, space and no-break space.
\<close>

definition is_whitespace :: "char \<Rightarrow> bool" where
  "is_whitespace c =
     (c = CHR 0x09 \<or> c = CHR 0x0A \<or> c = CHR 0x0B \<or> c = CHR 0x0C \<or> c = CHR 0x0D \<or>
      c = CHR 0x20 \<or> c = CHR 0xA0)"

definition trim :: "string \<Rightarrow> string" where
  "trim s = rev (dropWhile is_whitespace (rev (dropWhile is_whitespace s)))"

text \<open>\<^verbatim>\<open>Number.prototype.toString\<close> on an integer: its decimal digits.\<close>

fun digits :: "nat \<Rightarrow> string" where
  "digits n = (if n < 10 then [''0123456789'' ! n] else digits (n div 10) @ [''0123456789'' ! (n mod 10)])"

definition toString :: "int \<Rightarrow> string" where
  "toString n = (if n < 0 then CHR ''-'' # digits (nat (- n)) else digits (nat n))"

text \<open>
  The state of the component: the six \<^verbatim>\<open>useState\<close> cells. Two more fields record what the
  component has asked of the browser: the texts handed to \<^verbatim>\<open>navigator.clipboard.writeText\<close>
  and, for each pending \<^verbatim>\<open>setTimeout(() => setCopiedId(null), 2000)\<close>, the time at which it
  is due. No timeout is ever cancelled: the code keeps no handle and never calls
  \<^verbatim>\<open>clearTimeout\<close>.
\<close>

record App =
  messages :: "Message list"
  inputValue :: string
  targetModel :: ModelTarget
  isLoading :: bool
  copiedId :: "string option"
  showHistory :: bool
  clipboard_writes :: "string list"
  timeouts :: "int list"

definition initial :: App where
  "initial = \<lparr> messages = [], inputValue = [], targetModel = GENERAL, isLoading = False,
               copiedId = None, showHistory = False, clipboard_writes = [], timeouts = [] \<rparr>"

text \<open>
  \<^verbatim>\<open>handleCopy(text, id)\<close> at clock time \<open>now\<close>. Its first statement is
  \<^verbatim>\<open>navigator.clipboard.writeText(text)\<close>: where \<^verbatim>\<open>navigator.clipboard\<close> is undefined (a
  page outside a secure context) the property read throws a TypeError, and neither
  \<^verbatim>\<open>setCopiedId\<close> nor \<^verbatim>\<open>setTimeout\<close> is reached. \<open>clipboard_defined\<close> says whether the
  browser offers the clipboard. The promise that \<^verbatim>\<open>writeText\<close> returns is not awaited, so
  whether the write itself succeeds has no effect on the state.
\<close>

datatype js_exception = TypeError

definition handleCopy :: "bool \<Rightarrow> string \<Rightarrow> string \<Rightarrow> int \<Rightarrow> App \<Rightarrow> js_exception + App" where
  "handleCopy clipboard_defined txt ident now s =
     (if \<not> clipboard_defined then Inl TypeError
      else Inr (s\<lparr> clipboard_writes := clipboard_writes s @ [txt],
                  copiedId := Some ident,
                  timeouts := timeouts s @ [now + 2000] \<rparr>))"

text \<open>
  The event loop at clock time \<open>now\<close>: every pending timeout that is due runs its callback
  \<^verbatim>\<open>() => setCopiedId(null)\<close> and is removed.
\<close>

definition runTimeouts :: "int \<Rightarrow> App \<Rightarrow> App" where
  "runTimeouts now s =
     (if list_ex (\<lambda>due. due \<le> now) (timeouts s)
      then s\<lparr> copiedId := None, timeouts := filter (\<lambda>due. \<not> due \<le> now) (timeouts s) \<rparr>
      else s)"

definition CLARIFICATION_TEXT :: string where
  \<open>CLARIFICATION_TEXT = ''I need a bit more information to build the perfect prompt for you:''\<close>

definition ARCHITECTED_TEXT :: string where
  \<open>ARCHITECTED_TEXT = ''I've architected a world-class prompt based on your requirements.''\<close>

definition ERROR_TEXT :: string where
  \<open>ERROR_TEXT = ''I encountered an error while constructing your prompt. Please check your API configuration or try again.''\<close>

text \<open>The \<^verbatim>\<open>messages.map(...)\<close> of lines 44 to 47.\<close>

definition historyForApi :: "Message list \<Rightarrow> Content list" where
  "historyForApi msgs =
     map (\<lambda>msg. \<lparr> role_c = (if role msg = User then ''user'' else ''model''),
                  parts = [\<lparr> text_p = content msg \<rparr>] \<rparr>) msgs"

text \<open>
  \<^verbatim>\<open>handleSend\<close> up to its await (lines 29 to 50). \<open>now_id\<close> and \<open>now_ts\<close> are the two
  readings of \<^verbatim>\<open>Date.now()\<close>. The second component is the call of \<^verbatim>\<open>generatePrompt\<close>
  that is issued, if any: its three arguments.
\<close>

definition handleSend ::
  "int \<Rightarrow> int \<Rightarrow> App \<Rightarrow> App \<times> (string \<times> ModelTarget \<times> Content list) option" where
  "handleSend now_id now_ts s =
     (if trim (inputValue s) = [] \<or> isLoading s then (s, None)
      else
        let userMessage = \<lparr> id_msg = toString now_id, role = User, content = inputValue s,
                             result = None, timestamp = now_ts \<rparr>
        in (s\<lparr> messages := messages s @ [userMessage], inputValue := [], isLoading := True \<rparr>,
            Some (inputValue s, targetModel s, historyForApi (messages s))))"

text \<open>JavaScript truthiness of a JSON value.\<close>

fun truthy :: "json \<Rightarrow> bool" where
  "truthy JNull = False"
| "truthy (JBool b) = b"
| "truthy (JNum n) = (n \<noteq> 0)"
| "truthy (JStr s) = (s \<noteq> [])"
| "truthy (JArr xs) = True"
| "truthy (JObj props) = True"

text \<open>
  The condition \<^verbatim>\<open>result.isClarificationNeeded\<close> of line 55 on the value the call returned.
  Reading a property of \<^verbatim>\<open>null\<close> throws a TypeError (\<open>None\<close>); an object gives the
  property's value, or undefined when it has none; booleans, numbers, strings and arrays have
  no property of this name and give undefined, which is falsy.
\<close>

fun isClarificationNeeded_cond :: "json \<Rightarrow> bool option" where
  "isClarificationNeeded_cond JNull = None"
| "isClarificationNeeded_cond (JObj props) =
     Some (case map_of props ''isClarificationNeeded'' of None \<Rightarrow> False | Some v \<Rightarrow> truthy v)"
| "isClarificationNeeded_cond j = Some False"

text \<open>
  \<^verbatim>\<open>handleSend\<close> from the point where the awaited call has settled (lines 50 to 73), with
  \<open>outcome\<close> what \<^verbatim>\<open>generatePrompt\<close> resolved (\<open>Inr\<close>) or rejected (\<open>Inl\<close>) with. The
  state is the one current at that moment: the updates are functional
  (\<^verbatim>\<open>prev => [...prev, m]\<close>). \<open>now_id\<close> and \<open>now_ts\<close> are the clock readings that go into the
  appended message. An exception inside the try block, after the call has resolved, reaches
  the same catch block as a rejection (the clock reading taken for the id before the
  exception is dropped, and the catch block reads the clock anew).
\<close>

definition handleSend_settled :: "'e error + json \<Rightarrow> int \<Rightarrow> int \<Rightarrow> App \<Rightarrow> App" where
  "handleSend_settled outcome now_id now_ts s =
     (let errorMessage = \<lparr> id_msg = toString (now_id + 1), role = Assistant, content = ERROR_TEXT,
                            result = None, timestamp = now_ts \<rparr>;
          appended =
            (case outcome of
               Inl e \<Rightarrow> errorMessage
             | Inr r \<Rightarrow>
                 (case isClarificationNeeded_cond r of
                    None \<Rightarrow> errorMessage
                  | Some b \<Rightarrow>
                      \<lparr> id_msg = toString (now_id + 1), role = Assistant,
                        content = (if b then CLARIFICATION_TEXT else ARCHITECTED_TEXT),
                        result = Some r, timestamp = now_ts \<rparr>))
      in s\<lparr> messages := messages s @ [appended], isLoading := False \<rparr>)"

text \<open>\<^verbatim>\<open>clearHistory\<close>; \<open>confirmed\<close> is the answer of the \<^verbatim>\<open>confirm\<close> dialog.\<close>

definition clearHistory :: "bool \<Rightarrow> App \<Rightarrow> App" where
  "clearHistory confirmed s = (if confirmed then s\<lparr> messages := [] \<rparr> else s)"

subsection \<open>Sessions\<close>

text \<open>
  A session is a sequence of events on the initial state. The settling of the outstanding call
  is an event of its own, so that other events may come between a submit and its
  answer. An exception that leaves an event handler leaves the state as it was. A call is outstanding exactly while \<open>isLoading\<close> holds: the submit sets the flag
  when it issues the call, and only the end of that submit resets it.
\<close>

datatype 'e event =
    SetInputValue string
  | SetTargetModel ModelTarget
  | SetShowHistory bool
  | Send int int
  | Settled "'e error + json" int int
  | Copy bool string string int
  | Timeouts int
  | Clear bool

fun step :: "App \<Rightarrow> 'e event \<Rightarrow> App" where
  "step s (SetInputValue v) = s\<lparr> inputValue := v \<rparr>"
| "step s (SetTargetModel t) = s\<lparr> targetModel := t \<rparr>"
| "step s (SetShowHistory b) = s\<lparr> showHistory := b \<rparr>"
| "step s (Send now_id now_ts) = fst (handleSend now_id now_ts s)"
| "step s (Settled outcome now_id now_ts) =
     (if isLoading s then handleSend_settled outcome now_id now_ts s else s)"
| "step s (Copy clipboard_defined txt ident now) =
     (case handleCopy clipboard_defined txt ident now s of Inl exn \<Rightarrow> s | Inr s' \<Rightarrow> s')"
| "step s (Timeouts now) = runTimeouts now s"
| "step s (Clear confirmed) = clearHistory confirmed s"

definition run :: "'e event list \<Rightarrow> App" where
  "run evs = foldl step initial evs"

text \<open>
  Where each message of the list comes from: typed by the user, or appended when the call
  settled, which either resolved with a value or rejected. The origins are kept beside the
  state, one for each message, by the same events.
\<close>

datatype origin = Typed | Resolved json | Rejected

fun origins_step :: "App \<Rightarrow> 'e event \<Rightarrow> origin list \<Rightarrow> origin list" where
  "origins_step s (Send now_id now_ts) os =
     (if trim (inputValue s) = [] \<or> isLoading s then os else os @ [Typed])"
| "origins_step s (Settled outcome now_id now_ts) os =
     (if isLoading s then os @ [case outcome of Inl e \<Rightarrow> Rejected | Inr r \<Rightarrow> Resolved r] else os)"
| "origins_step s (Clear confirmed) os = (if confirmed then [] else os)"
| "origins_step s ev os = os"

definition run_origins :: "'e event list \<Rightarrow> App \<times> origin list" where
  "run_origins evs = foldl (\<lambda>(s, os) ev. (step s ev, origins_step s ev os)) (initial, []) evs"

text \<open>
  The values a call may resolve with, by the declared return type \<^verbatim>\<open>Promise<PromptResult>\<close>
  and by the response schema, whose type is \<^verbatim>\<open>OBJECT\<close>: JSON objects. An event respects the
  type when the value it resolves with, if any, is an object.
\<close>

fun resolves_with_object :: "'e event \<Rightarrow> bool" where
  "resolves_with_object (Settled (Inr r) now_id now_ts) = is_JObj r"
| "resolves_with_object ev = True"

section \<open>Sample environments and sessions\<close>

text \<open>Two remote calls: one that resolves with a response of the given text, one that rejects.\<close>

definition remote_returning :: "string option \<Rightarrow> string \<Rightarrow> GenerateContentParameters \<Rightarrow> string + GenerateContentResponse" where
  "remote_returning t key params = Inr \<lparr> text_r = t \<rparr>"

definition remote_failing :: "string \<Rightarrow> string \<Rightarrow> GenerateContentParameters \<Rightarrow> string + GenerateContentResponse" where
  "remote_failing e key params = Inl e"

text \<open>
  A remote call that shows what it was sent: it rejects, and the error it rejects with is the
  \<^verbatim>\<open>contents\<close> of the request it received.
\<close>

definition remote_echo :: "string \<Rightarrow> GenerateContentParameters \<Rightarrow> Content list + GenerateContentResponse" where
  "remote_echo key params = Inl (contents params)"

text \<open>
  The two answers of the spec's scenarios: a clarification with two questions, and an
  optimized prompt.
\<close>

definition clarification_props :: "(string \<times> json) list" where
  "clarification_props =
     [(''isClarificationNeeded'', JBool True),
      (''clarifyingQuestions'', JArr [JStr ''Who is the audience?'', JStr ''What tone?'']),
      (''logic'', JStr ''...''),
      (''modelTip'', JStr ''...'')]"

definition sample_clarification :: json where
  "sample_clarification = JObj clarification_props"

definition prompt_props :: "(string \<times> json) list" where
  "prompt_props =
     [(''isClarificationNeeded'', JBool False),
      (''optimizedPrompt'', JStr ''...''),
      (''logic'', JStr ''...''),
      (''modelTip'', JStr ''...'')]"

definition sample_prompt :: json where
  "sample_prompt = JObj prompt_props"

text \<open>The initial state after the user has typed \<open>v\<close>.\<close>

definition typed :: "string \<Rightarrow> App" where
  "typed v = initial\<lparr> inputValue := v \<rparr>"

text \<open>A state with one completed turn: a user message and the answer to it.\<close>

definition two_messages :: App where
  "two_messages = handleSend_settled (Inr sample_prompt :: string error + json) 2000 2002
                    (fst (handleSend 1000 1001 (typed ''Write a post'')))"

text \<open>
  Two sessions. In the first the user types the next request while the call is outstanding
  and submits it one millisecond after the answer has arrived. The second is two turns: one
  answered with a clarification, one whose call is rejected.
\<close>

definition resubmit_session :: "string event list" where
  "resubmit_session =
     [SetInputValue ''Write a post'', Send 1000 1000, SetInputValue ''Shorter'',
      Settled (Inr sample_prompt) 1005 1005, Send 1006 1006]"

definition two_turn_session :: "string event list" where
  "two_turn_session =
     [SetInputValue ''Write a post'', Send 1000 1001, Settled (Inr sample_clarification) 2000 2002,
      SetInputValue ''For engineers'', Send 3000 3001, Settled (Inl (Remote ''network down'')) 4000 4002]"

text \<open>What a message must look like, given where it comes from.\<close>

fun origin_ok :: "Message \<Rightarrow> origin \<Rightarrow> bool" where
  "origin_ok m Typed = (role m = User \<and> result m = None)"
| "origin_ok m (Resolved r) = (role m = Assistant \<and> result m = (if r = JNull then None else Some r))"
| "origin_ok m Rejected = (role m = Assistant \<and> result m = None)"

section \<open>Auxiliary facts\<close>

lemmas eval_defs = run_def initial_def handleSend_def handleSend_settled_def trim_def is_whitespace_def
  toString_def Let_def handleCopy_def runTimeouts_def clearHistory_def sample_prompt_def
  sample_clarification_def prompt_props_def clarification_props_def

text \<open>A text trims to nothing exactly when all of it is whitespace.\<close>

lemma trim_Nil_iff: "trim s = [] \<longleftrightarrow> (\<forall>c\<in>set s. is_whitespace c)"
proof -
  have "(\<forall>c\<in>set (dropWhile is_whitespace s). is_whitespace c) \<longleftrightarrow> (\<forall>c\<in>set s. is_whitespace c)"
  proof
    assume a: "\<forall>c\<in>set (dropWhile is_whitespace s). is_whitespace c"
    have "dropWhile is_whitespace s = []"
    proof (rule ccontr)
      assume n: "dropWhile is_whitespace s \<noteq> []"
      then have "\<not> is_whitespace (hd (dropWhile is_whitespace s))" by (rule hd_dropWhile)
      moreover have "hd (dropWhile is_whitespace s) \<in> set (dropWhile is_whitespace s)" using n by simp
      ultimately show False using a by blast
    qed
    then show "\<forall>c\<in>set s. is_whitespace c" by simp
  next
    assume "\<forall>c\<in>set s. is_whitespace c"
    then show "\<forall>c\<in>set (dropWhile is_whitespace s). is_whitespace c"
      by (meson set_dropWhileD)
  qed
  then show ?thesis by (simp add: trim_def)
qed

lemma isClarificationNeeded_cond_None: "isClarificationNeeded_cond r = None \<longleftrightarrow> r = JNull"
  by (cases r) auto

text \<open>Every event keeps the messages in step with their origins.\<close>

lemma origins_step_ok:
  assumes "list_all2 origin_ok (messages s) os"
  shows "list_all2 origin_ok (messages (step s ev)) (origins_step s ev os)"
proof (cases ev)
  case (Send now_id now_ts)
  with assms show ?thesis
    by (auto simp: handleSend_def Let_def list_all2_appendI)
next
  case (Settled outcome now_id now_ts)
  with assms show ?thesis
    by (auto simp: handleSend_settled_def Let_def isClarificationNeeded_cond_None
        intro!: list_all2_appendI split: sum.splits option.splits)
next
  case (Clear confirmed)
  with assms show ?thesis by (simp add: clearHistory_def)
next
  case (Copy clipboard_defined tx ident now)
  with assms show ?thesis by (simp add: handleCopy_def)
next
  case (Timeouts now)
  with assms show ?thesis by (simp add: runTimeouts_def)
qed (use assms in simp_all)

lemma run_origins_snoc:
  "run_origins (evs @ [ev]) = (step (fst (run_origins evs)) ev, origins_step (fst (run_origins evs)) ev (snd (run_origins evs)))"
  by (simp add: run_origins_def split_beta)

lemma run_snoc: "run (evs @ [ev]) = step (run evs) ev"
  by (simp add: run_def)

lemma run_origins_fst: "fst (run_origins evs) = run evs"
  by (induction evs rule: rev_induct) (simp_all add: run_origins_snoc run_snoc, simp add: run_origins_def run_def)

lemma run_origins_ok: "list_all2 origin_ok (messages (fst (run_origins evs))) (snd (run_origins evs))"
proof (induction evs rule: rev_induct)
  case Nil
  show ?case by (simp add: run_origins_def initial_def)
next
  case (snoc ev evs)
  then show ?case by (simp add: run_origins_snoc origins_step_ok)
qed

text \<open>In a session that respects the type, every value a call resolved with is an object.\<close>

lemma origins_step_typed:
  assumes "\<forall>r. Resolved r \<in> set os \<longrightarrow> is_JObj r" and "resolves_with_object ev"
  shows "\<forall>r. Resolved r \<in> set (origins_step s ev os) \<longrightarrow> is_JObj r"
proof (cases ev)
  case (Settled outcome now_id now_ts)
  with assms show ?thesis by (cases outcome) auto
qed (use assms in auto)

lemma run_origins_typed:
  "list_all resolves_with_object evs \<Longrightarrow> \<forall>r. Resolved r \<in> set (snd (run_origins evs)) \<longrightarrow> is_JObj r"
proof (induction evs rule: rev_induct)
  case Nil
  show ?case by (simp add: run_origins_def)
next
  case (snoc ev evs)
  then show ?case
    using origins_step_typed [of "snd (run_origins evs)" ev "fst (run_origins evs)"]
    by (simp add: run_origins_snoc)
qed

text \<open>A value of the declared shape is an object with a boolean flag.\<close>

lemma is_PromptResult_flag:
  "is_PromptResult r \<Longrightarrow> \<exists>props b. r = JObj props \<and> map_of props ''isClarificationNeeded'' = Some (JBool b)"
proof (cases r)
  case (JObj props)
  assume "is_PromptResult r"
  with JObj have "has_field is_JBool props ''isClarificationNeeded''" by simp
  then obtain v where v: "map_of props ''isClarificationNeeded'' = Some v" "is_JBool v"
    by (auto simp: has_field_def split: option.splits)
  then obtain b where "v = JBool b" by (cases v) auto
  with v JObj show ?thesis by blast
qed auto

text \<open>The text of the last turn of a request determines the target and the user's text.\<close>

lemma turn_text_inj:
  assumes "''Target Model: '' @ ModelTarget_value t @ [LF] @ ''User Request: '' @ u =
           ''Target Model: '' @ ModelTarget_value t' @ [LF] @ ''User Request: '' @ u'"
  shows "t = t' \<and> u = u'"
  using assms by (cases t; cases t') (simp_all add: LF_def)

text \<open>What the event loop does to the indicator.\<close>

lemma runTimeouts_due:
  "list_ex (\<lambda>due. due \<le> t) (timeouts s) \<Longrightarrow> copiedId (runTimeouts t s) = None"
  by (simp add: runTimeouts_def)

lemma runTimeouts_none_due:
  "list_all (\<lambda>due. t < due) (timeouts s) \<Longrightarrow> runTimeouts t s = s"
  by (auto simp: runTimeouts_def list_ex_iff list_all_iff)

section \<open>The generation client: errors\<close>

text \<open>
  C1 (as amended). A call of \<^verbatim>\<open>generatePrompt\<close> fails with the "invalid response" error
  exactly when the remote call resolved and its response text, with \<^verbatim>\<open>{}\<close> put in place
  of an empty or absent text, is not JSON. The value is not compared with the shape of a
  \<^verbatim>\<open>PromptResult\<close>. An error of the remote call itself is passed on unchanged.
\<close>

theorem generatePrompt_invalid_response_iff:
  "(generatePrompt P G key u t h = Inl InvalidResponse \<longleftrightarrow>
      (\<exists>response. G (or_else key []) (generateContent_params u t h) = Inr response \<and>
                  P (or_else (text_r response) ''{}'') = None)) \<and>
   (\<forall>j. generatePrompt P G key u t h = Inr j \<longleftrightarrow>
      (\<exists>response. G (or_else key []) (generateContent_params u t h) = Inr response \<and>
                  P (or_else (text_r response) ''{}'') = Some j)) \<and>
   (\<forall>e. G (or_else key []) (generateContent_params u t h) = Inl e \<longrightarrow>
        generatePrompt P G key u t h = Inl (Remote e))"
  by (auto simp: generatePrompt_def split: sum.splits option.splits)

theorem generatePrompt_invalid_response_iff_witness:
  "generatePrompt JSON_parse_sample (remote_failing ''network down'') None ''hi'' GENERAL [] = Inl (Remote ''network down'') \<and>
   generatePrompt JSON_parse_sample (remote_returning (Some ''not json'')) None ''hi'' GENERAL [] = Inl InvalidResponse"
proof
  have "remote_failing ''network down'' (or_else None []) (generateContent_params ''hi'' GENERAL []) = Inl ''network down''"
    by (simp add: remote_failing_def)
  with generatePrompt_invalid_response_iff [of JSON_parse_sample "remote_failing ''network down''" None "''hi''" GENERAL "[]"]
  show "generatePrompt JSON_parse_sample (remote_failing ''network down'') None ''hi'' GENERAL [] = Inl (Remote ''network down'')"
    by blast
next
  have "remote_returning (Some ''not json'') (or_else None []) (generateContent_params ''hi'' GENERAL []) = Inr \<lparr> text_r = Some ''not json'' \<rparr> \<and>
        JSON_parse_sample (or_else (text_r \<lparr> text_r = Some ''not json'' \<rparr>) ''{}'') = None"
    by (simp add: remote_returning_def JSON_parse_sample_def)
  with generatePrompt_invalid_response_iff [of JSON_parse_sample "remote_returning (Some ''not json'')" None "''hi''" GENERAL "[]"]
  show "generatePrompt JSON_parse_sample (remote_returning (Some ''not json'')) None ''hi'' GENERAL [] = Inl InvalidResponse"
    by blast
qed

text \<open>
  The claim as it was stated fails where the response text is empty, and where it is the
  empty object: neither can be parsed as a \<^verbatim>\<open>PromptResult\<close>, and the call returns the
  empty object instead of failing.
\<close>

theorem generatePrompt_empty_payload_counterexample:
  "\<not> (generatePrompt JSON_parse_sample (remote_returning (Some [])) None ''hi'' GENERAL [] = Inl InvalidResponse \<longleftrightarrow>
       \<not> payload_parses_as_PromptResult JSON_parse_sample \<lparr> text_r = Some [] \<rparr>) \<and>
   \<not> (generatePrompt JSON_parse_sample (remote_returning (Some ''{}'')) None ''hi'' GENERAL [] = Inl InvalidResponse \<longleftrightarrow>
       \<not> payload_parses_as_PromptResult JSON_parse_sample \<lparr> text_r = Some ''{}'' \<rparr>)"
  by (simp add: generatePrompt_def remote_returning_def payload_parses_as_PromptResult_def
      JSON_parse_sample_def has_field_def)

section \<open>The controller: a submit and its answer\<close>

text \<open>
  C2. When the generation call succeeds with a result \<open>r\<close>, an object whose
  \<^verbatim>\<open>isClarificationNeeded\<close> is a boolean, as every \<^verbatim>\<open>PromptResult\<close> is, the submit appends
  exactly one assistant message, after the user message; it carries \<open>r\<close>, and its content is
  the clarification text when the flag is true and the "prompt architected" text when it is
  false.
\<close>

theorem handleSend_settled_resolved:
  assumes "map_of props ''isClarificationNeeded'' = Some (JBool b)"
  shows "handleSend_settled (Inr (JObj props) :: 'e error + json) now_id now_ts s =
           s\<lparr> messages := messages s @
                 [\<lparr> id_msg = toString (now_id + 1), role = Assistant,
                    content = (if b then CLARIFICATION_TEXT else ARCHITECTED_TEXT),
                    result = Some (JObj props), timestamp = now_ts \<rparr>],
              isLoading := False \<rparr> \<and>
         (trim (inputValue s) \<noteq> [] \<and> \<not> isLoading s \<longrightarrow>
            messages (handleSend_settled (Inr (JObj props) :: 'e error + json) now_id now_ts
                        (fst (handleSend t_id t_ts s))) =
              messages s @
                [\<lparr> id_msg = toString t_id, role = User, content = inputValue s, result = None,
                   timestamp = t_ts \<rparr>,
                 \<lparr> id_msg = toString (now_id + 1), role = Assistant,
                   content = (if b then CLARIFICATION_TEXT else ARCHITECTED_TEXT),
                   result = Some (JObj props), timestamp = now_ts \<rparr>]) \<and>
         ARCHITECTED_TEXT = ''I've architected a world-class prompt based on your requirements.'' \<and>
         CLARIFICATION_TEXT \<noteq> ARCHITECTED_TEXT \<and>
         (\<forall>r. is_PromptResult r \<longrightarrow>
            (\<exists>props' b'. r = JObj props' \<and> map_of props' ''isClarificationNeeded'' = Some (JBool b')))"
proof -
  have "\<forall>r. is_PromptResult r \<longrightarrow>
          (\<exists>props' b'. r = JObj props' \<and> map_of props' ''isClarificationNeeded'' = Some (JBool b'))"
    using is_PromptResult_flag by blast
  with assms show ?thesis
    by (simp add: handleSend_settled_def handleSend_def Let_def
        ARCHITECTED_TEXT_def CLARIFICATION_TEXT_def)
qed

theorem handleSend_settled_resolved_witness:
  "map_of clarification_props ''isClarificationNeeded'' = Some (JBool True) \<and>
   map_of prompt_props ''isClarificationNeeded'' = Some (JBool False) \<and>
   is_PromptResult sample_prompt \<and>
   messages (handleSend_settled (Inr sample_clarification :: string error + json) 2000 2002
               (fst (handleSend 1000 1001 (typed ''Write a post'')))) =
     [\<lparr> id_msg = ''1000'', role = User, content = ''Write a post'', result = None, timestamp = 1001 \<rparr>,
      \<lparr> id_msg = ''2001'', role = Assistant, content = CLARIFICATION_TEXT,
        result = Some sample_clarification, timestamp = 2002 \<rparr>] \<and>
   messages (handleSend_settled (Inr sample_prompt :: string error + json) 2000 2002
               (fst (handleSend 1000 1001 (typed ''Write a post'')))) =
     [\<lparr> id_msg = ''1000'', role = User, content = ''Write a post'', result = None, timestamp = 1001 \<rparr>,
      \<lparr> id_msg = ''2001'', role = Assistant, content = ARCHITECTED_TEXT,
        result = Some sample_prompt, timestamp = 2002 \<rparr>]"
proof -
  have c: "map_of clarification_props ''isClarificationNeeded'' = Some (JBool True)"
    by (simp add: clarification_props_def)
  have p: "map_of prompt_props ''isClarificationNeeded'' = Some (JBool False)"
    by (simp add: prompt_props_def)
  have i: "is_PromptResult sample_prompt"
    by (simp add: sample_prompt_def prompt_props_def has_field_def has_optional_field_def)
  have g: "trim (inputValue (typed ''Write a post'')) \<noteq> [] \<and> \<not> isLoading (typed ''Write a post'')"
    by (simp add: typed_def initial_def trim_def is_whitespace_def)
  have t: "toString 1000 = ''1000'' \<and> toString (2000 + 1) = ''2001''"
    by (simp add: toString_def)
  have m: "messages (typed ''Write a post'') = [] \<and> inputValue (typed ''Write a post'') = ''Write a post''"
    by (simp add: typed_def initial_def)
  from handleSend_settled_resolved [where 'e = string, OF c, of 2000 2002 "typed ''Write a post''" 1000 1001]
    handleSend_settled_resolved [where 'e = string, OF p, of 2000 2002 "typed ''Write a post''" 1000 1001]
    g t m c p i
  show ?thesis
    by (simp add: sample_clarification_def sample_prompt_def)
qed

text \<open>
  C3. When the generation call fails, the submit appends exactly one assistant message, with
  the fixed error text and no result, and the loading flag is false afterwards. The flag is
  false after the end of every submit that issued a call, whatever the outcome.
\<close>

theorem handleSend_settled_rejected:
  "handleSend_settled (Inl e) now_id now_ts s =
     s\<lparr> messages := messages s @
           [\<lparr> id_msg = toString (now_id + 1), role = Assistant, content = ERROR_TEXT,
              result = None, timestamp = now_ts \<rparr>],
        isLoading := False \<rparr> \<and>
   isLoading (handleSend_settled outcome now_id now_ts s) = False \<and>
   isLoading (step s (Settled outcome now_id now_ts)) = False"
  by (simp add: handleSend_settled_def Let_def)

text \<open>
  C4. A submit of a text that is all whitespace, and a submit while a call is outstanding,
  does nothing: the state is unchanged, so no message is appended, and no call is issued.
\<close>

theorem handleSend_noop:
  assumes "(\<forall>c\<in>set (inputValue s). is_whitespace c) \<or> isLoading s"
  shows "handleSend now_id now_ts s = (s, None) \<and> step s (Send now_id now_ts) = s"
  using assms by (auto simp: handleSend_def trim_Nil_iff)

theorem handleSend_noop_witness:
  "((\<forall>c\<in>set (inputValue (typed [CHR 0x20, CHR 0x09, CHR 0x0A])). is_whitespace c) \<or>
      isLoading (typed [CHR 0x20, CHR 0x09, CHR 0x0A])) \<and>
   handleSend 1000 1001 (typed [CHR 0x20, CHR 0x09, CHR 0x0A]) = (typed [CHR 0x20, CHR 0x09, CHR 0x0A], None) \<and>
   isLoading (fst (handleSend 1000 1001 (typed ''Write a post''))) \<and>
   handleSend 1002 1003 ((fst (handleSend 1000 1001 (typed ''Write a post'')))\<lparr> inputValue := ''again'' \<rparr>) =
     ((fst (handleSend 1000 1001 (typed ''Write a post'')))\<lparr> inputValue := ''again'' \<rparr>, None)"
proof -
  have a: "(\<forall>c\<in>set (inputValue (typed [CHR 0x20, CHR 0x09, CHR 0x0A])). is_whitespace c) \<or>
      isLoading (typed [CHR 0x20, CHR 0x09, CHR 0x0A])"
    by (simp add: typed_def initial_def is_whitespace_def)
  have b: "isLoading (fst (handleSend 1000 1001 (typed ''Write a post'')))"
    by (simp add: handleSend_def typed_def initial_def trim_def is_whitespace_def Let_def)
  then have b': "(\<forall>c\<in>set (inputValue ((fst (handleSend 1000 1001 (typed ''Write a post'')))\<lparr> inputValue := ''again'' \<rparr>)). is_whitespace c) \<or>
      isLoading ((fst (handleSend 1000 1001 (typed ''Write a post'')))\<lparr> inputValue := ''again'' \<rparr>)"
    by simp
  from handleSend_noop [OF a, of 1000 1001] handleSend_noop [OF b', of 1002 1003] a b
  show ?thesis by blast
qed

text \<open>
  C5. A submit of a text that is not blank issues a call only when none is outstanding. The
  history of that call is the projection to role and text of the messages that were there
  before the submit; the new user message is appended to the list but is not part of the
  history. What \<^verbatim>\<open>generatePrompt\<close> sends to the remote call is that history followed by one
  user turn, whose text is made of the target label and the user's text and determines both.
\<close>

theorem handleSend_history_snapshot:
  assumes "trim (inputValue s) \<noteq> []"
  shows "(isLoading s \<longrightarrow> snd (handleSend now_id now_ts s) = None) \<and>
         (\<not> isLoading s \<longrightarrow>
            snd (handleSend now_id now_ts s) =
              Some (inputValue s, targetModel s, historyForApi (messages s)) \<and>
            historyForApi (messages s) =
              map (\<lambda>msg. \<lparr> role_c = (if role msg = User then ''user'' else ''model''),
                           parts = [\<lparr> text_p = content msg \<rparr>] \<rparr>) (messages s) \<and>
            messages (fst (handleSend now_id now_ts s)) =
              messages s @ [\<lparr> id_msg = toString now_id, role = User, content = inputValue s,
                              result = None, timestamp = now_ts \<rparr>] \<and>
            generatePrompt P remote_echo key (inputValue s) (targetModel s) (historyForApi (messages s)) =
              Inl (Remote
                (map (\<lambda>msg. \<lparr> role_c = (if role msg = User then ''user'' else ''model''),
                              parts = [\<lparr> text_p = content msg \<rparr>] \<rparr>) (messages s) @
                 [\<lparr> role_c = ''user'',
                    parts = [\<lparr> text_p = ''Target Model: '' @
                                (case targetModel s of GEMINI \<Rightarrow> ''GEMINI'' | GPT4 \<Rightarrow> ''GPT4''
                                 | CLAUDE \<Rightarrow> ''CLAUDE'' | GENERAL \<Rightarrow> ''GENERAL'') @
                                [CHR 0x0A] @ ''User Request: '' @ inputValue s \<rparr>] \<rparr>])) \<and>
            (\<forall>u' t' h'.
               generatePrompt P remote_echo key u' t' h' =
               generatePrompt P remote_echo key (inputValue s) (targetModel s) (historyForApi (messages s)) \<longrightarrow>
               u' = inputValue s \<and> t' = targetModel s \<and> h' = historyForApi (messages s)))"
proof -
  have label: "ModelTarget_value (targetModel s) =
      (case targetModel s of GEMINI \<Rightarrow> ''GEMINI'' | GPT4 \<Rightarrow> ''GPT4'' | CLAUDE \<Rightarrow> ''CLAUDE'' | GENERAL \<Rightarrow> ''GENERAL'')"
    by (cases "targetModel s") simp_all
  have echo: "\<And>u t h. generatePrompt P remote_echo key u t h =
      Inl (Remote (h @ [\<lparr> role_c = ''user'',
            parts = [\<lparr> text_p = ''Target Model: '' @ ModelTarget_value t @ [LF] @ ''User Request: '' @ u \<rparr>] \<rparr>]))"
    by (simp add: generatePrompt_def remote_echo_def generateContent_params_def)
  have inj: "\<And>u' t' h'. generatePrompt P remote_echo key u' t' h' =
               generatePrompt P remote_echo key (inputValue s) (targetModel s) (historyForApi (messages s)) \<Longrightarrow>
               u' = inputValue s \<and> t' = targetModel s \<and> h' = historyForApi (messages s)"
  proof -
    fix u' t' h'
    assume "generatePrompt P remote_echo key u' t' h' =
               generatePrompt P remote_echo key (inputValue s) (targetModel s) (historyForApi (messages s))"
    then have h: "h' = historyForApi (messages s)"
      and "''Target Model: '' @ ModelTarget_value t' @ [LF] @ ''User Request: '' @ u' =
           ''Target Model: '' @ ModelTarget_value (targetModel s) @ [LF] @ ''User Request: '' @ inputValue s"
      by (simp_all add: echo)
    then show "u' = inputValue s \<and> t' = targetModel s \<and> h' = historyForApi (messages s)"
      using turn_text_inj by blast
  qed
  have first: "isLoading s \<longrightarrow> snd (handleSend now_id now_ts s) = None"
    by (simp add: handleSend_def)
  have call: "\<not> isLoading s \<longrightarrow>
            snd (handleSend now_id now_ts s) =
              Some (inputValue s, targetModel s, historyForApi (messages s)) \<and>
            messages (fst (handleSend now_id now_ts s)) =
              messages s @ [\<lparr> id_msg = toString now_id, role = User, content = inputValue s,
                              result = None, timestamp = now_ts \<rparr>]"
    using assms by (simp add: handleSend_def Let_def)
  have sent: "generatePrompt P remote_echo key (inputValue s) (targetModel s) (historyForApi (messages s)) =
              Inl (Remote
                (map (\<lambda>msg. \<lparr> role_c = (if role msg = User then ''user'' else ''model''),
                              parts = [\<lparr> text_p = content msg \<rparr>] \<rparr>) (messages s) @
                 [\<lparr> role_c = ''user'',
                    parts = [\<lparr> text_p = ''Target Model: '' @
                                (case targetModel s of GEMINI \<Rightarrow> ''GEMINI'' | GPT4 \<Rightarrow> ''GPT4''
                                 | CLAUDE \<Rightarrow> ''CLAUDE'' | GENERAL \<Rightarrow> ''GENERAL'') @
                                [CHR 0x0A] @ ''User Request: '' @ inputValue s \<rparr>] \<rparr>]))"
    by (simp add: echo label [symmetric] historyForApi_def LF_def)
  have hist: "historyForApi (messages s) =
              map (\<lambda>msg. \<lparr> role_c = (if role msg = User then ''user'' else ''model''),
                           parts = [\<lparr> text_p = content msg \<rparr>] \<rparr>) (messages s)"
    by (simp add: historyForApi_def)
  from first call sent hist inj show ?thesis by blast
qed

theorem handleSend_history_snapshot_witness:
  "trim (inputValue (two_messages\<lparr> inputValue := ''Shorter'', targetModel := CLAUDE \<rparr>)) \<noteq> [] \<and>
   \<not> isLoading (two_messages\<lparr> inputValue := ''Shorter'', targetModel := CLAUDE \<rparr>) \<and>
   snd (handleSend 3000 3001 (two_messages\<lparr> inputValue := ''Shorter'', targetModel := CLAUDE \<rparr>)) =
     Some (''Shorter'', CLAUDE,
           [\<lparr> role_c = ''user'', parts = [\<lparr> text_p = ''Write a post'' \<rparr>] \<rparr>,
            \<lparr> role_c = ''model'', parts = [\<lparr> text_p = ARCHITECTED_TEXT \<rparr>] \<rparr>]) \<and>
   generatePrompt JSON_parse_sample remote_echo None ''Shorter'' CLAUDE
       [\<lparr> role_c = ''user'', parts = [\<lparr> text_p = ''Write a post'' \<rparr>] \<rparr>,
        \<lparr> role_c = ''model'', parts = [\<lparr> text_p = ARCHITECTED_TEXT \<rparr>] \<rparr>] =
     Inl (Remote
       [\<lparr> role_c = ''user'', parts = [\<lparr> text_p = ''Write a post'' \<rparr>] \<rparr>,
        \<lparr> role_c = ''model'', parts = [\<lparr> text_p = ARCHITECTED_TEXT \<rparr>] \<rparr>,
        \<lparr> role_c = ''user'',
          parts = [\<lparr> text_p = ''Target Model: CLAUDE'' @ [CHR 0x0A] @ ''User Request: Shorter'' \<rparr>] \<rparr>])"
proof -
  have m: "messages two_messages =
     [\<lparr> id_msg = ''1000'', role = User, content = ''Write a post'', result = None, timestamp = 1001 \<rparr>,
      \<lparr> id_msg = ''2001'', role = Assistant, content = ARCHITECTED_TEXT,
        result = Some sample_prompt, timestamp = 2002 \<rparr>]"
    by (simp add: two_messages_def handleSend_settled_def handleSend_def typed_def initial_def trim_def
        is_whitespace_def toString_def Let_def sample_prompt_def prompt_props_def)
  have l: "\<not> isLoading two_messages"
    by (simp add: two_messages_def handleSend_settled_def Let_def)
  have a: "trim (inputValue (two_messages\<lparr> inputValue := ''Shorter'', targetModel := CLAUDE \<rparr>)) \<noteq> []"
    by (simp add: trim_def is_whitespace_def)
  from handleSend_history_snapshot [OF a, of 3000 3001 JSON_parse_sample None] a l m
  show ?thesis by (simp add: historyForApi_def)
qed

section \<open>Sessions: message ids\<close>

text \<open>
  C6. The ids of the messages of a session are meant to be pairwise distinct. They are clock
  readings: the answer to a submit gets the reading plus one, and a submit one millisecond
  later gets the same id. This session ends with two messages of id 1006.
\<close>

theorem run_duplicate_ids:
  "map id_msg (messages (run resubmit_session)) = [''1000'', ''1006'', ''1006''] \<and>
   \<not> distinct (map id_msg (messages (run resubmit_session)))"
  by (simp add: resubmit_session_def sample_prompt_def eval_defs)

section \<open>The "copied" indicator\<close>

text \<open>
  C7 (as amended). Where the browser offers the clipboard, a copy with message id \<open>x\<close> sets
  the indicator to \<open>x\<close> at once and adds a timeout due 2000 ms later. While no timeout is due
  the indicator stays; once the 2000 ms have passed it is none. A later copy replaces the
  indicator but cancels nothing: the timeout of the earlier copy clears the indicator of the
  later one as well. Where \<^verbatim>\<open>navigator.clipboard\<close> is undefined the copy throws before it
  sets the indicator, and the state stays as it was.
\<close>

theorem handleCopy_indicator:
  "handleCopy False txt x now s = Inl TypeError \<and>
   step s (Copy False txt x now :: 'e event) = s \<and>
   handleCopy True txt x now s =
     Inr (s\<lparr> clipboard_writes := clipboard_writes s @ [txt], copiedId := Some x,
              timeouts := timeouts s @ [now + 2000] \<rparr>) \<and>
   (\<forall>s'. handleCopy True txt x now s = Inr s' \<longrightarrow>
      step s (Copy True txt x now :: 'e event) = s' \<and>
      copiedId s' = Some x \<and>
      (t < now + 2000 \<and> list_all (\<lambda>due. t < due) (timeouts s) \<longrightarrow>
         copiedId (runTimeouts t s') = Some x) \<and>
      (now + 2000 \<le> t \<longrightarrow> copiedId (runTimeouts t s') = None) \<and>
      (\<forall>s''. now + 2000 \<le> t \<and> handleCopy True txt' y now' s' = Inr s'' \<longrightarrow>
         copiedId s'' = Some y \<and> copiedId (runTimeouts t s'') = None))"
proof -
  let ?s' = "s\<lparr> clipboard_writes := clipboard_writes s @ [txt], copiedId := Some x,
              timeouts := timeouts s @ [now + 2000] \<rparr>"
  let ?s'' = "?s'\<lparr> clipboard_writes := clipboard_writes ?s' @ [txt'], copiedId := Some y,
              timeouts := timeouts ?s' @ [now' + 2000] \<rparr>"
  have a: "handleCopy False txt x now s = Inl TypeError"
    by (simp add: handleCopy_def)
  have b: "step s (Copy False txt x now :: 'e event) = s"
    by (simp add: handleCopy_def)
  have c: "handleCopy True txt x now s = Inr ?s'"
    by (simp add: handleCopy_def)
  have d: "step s (Copy True txt x now :: 'e event) = ?s'"
    by (simp add: handleCopy_def)
  have e: "copiedId ?s' = Some x" by simp
  have f: "t < now + 2000 \<and> list_all (\<lambda>due. t < due) (timeouts s) \<longrightarrow>
         copiedId (runTimeouts t ?s') = Some x"
    by (simp add: runTimeouts_none_due)
  have g: "now + 2000 \<le> t \<longrightarrow> copiedId (runTimeouts t ?s') = None"
    by (simp add: runTimeouts_due)
  have h: "handleCopy True txt' y now' ?s' = Inr ?s''"
    by (simp add: handleCopy_def)
  have i: "copiedId ?s'' = Some y" by simp
  have j: "now + 2000 \<le> t \<longrightarrow> copiedId (runTimeouts t ?s'') = None"
    by (simp add: runTimeouts_due)
  from h i j have k: "\<forall>s''. now + 2000 \<le> t \<and> handleCopy True txt' y now' ?s' = Inr s'' \<longrightarrow>
         copiedId s'' = Some y \<and> copiedId (runTimeouts t s'') = None"
    by (metis sum.inject(2))
  from c d e f g k have l: "\<forall>s'. handleCopy True txt x now s = Inr s' \<longrightarrow>
      step s (Copy True txt x now :: 'e event) = s' \<and>
      copiedId s' = Some x \<and>
      (t < now + 2000 \<and> list_all (\<lambda>due. t < due) (timeouts s) \<longrightarrow>
         copiedId (runTimeouts t s') = Some x) \<and>
      (now + 2000 \<le> t \<longrightarrow> copiedId (runTimeouts t s') = None) \<and>
      (\<forall>s''. now + 2000 \<le> t \<and> handleCopy True txt' y now' s' = Inr s'' \<longrightarrow>
         copiedId s'' = Some y \<and> copiedId (runTimeouts t s'') = None)"
    by (metis sum.inject(2))
  from a b c l show ?thesis by (intro conjI)
qed


theorem handleCopy_indicator_witness:
  "handleCopy True ''p'' ''1001'' 0 initial = Inr (step initial (Copy True ''p'' ''1001'' 0 :: string event)) \<and>
   copiedId (step initial (Copy True ''p'' ''1001'' 0 :: string event)) = Some ''1001'' \<and>
   copiedId (runTimeouts 1999 (step initial (Copy True ''p'' ''1001'' 0 :: string event))) = Some ''1001'' \<and>
   copiedId (runTimeouts 2000 (step initial (Copy True ''p'' ''1001'' 0 :: string event))) = None"
proof -
  have a: "(1999::int) < 0 + 2000 \<and> list_all (\<lambda>due. (1999::int) < due) (timeouts initial)"
    by (simp add: initial_def)
  have b: "(0::int) + 2000 \<le> 2000" by simp
  have c: "handleCopy True ''p'' ''1001'' 0 initial = Inr (step initial (Copy True ''p'' ''1001'' 0 :: string event))"
    by (simp add: handleCopy_def)
  note w1 = handleCopy_indicator [where 'e = string, of "''p''" "''1001''" 0 initial 1999,
      THEN conjunct2, THEN conjunct2, THEN conjunct2, rule_format, OF c]
  note w2 = handleCopy_indicator [where 'e = string, of "''p''" "''1001''" 0 initial 2000,
      THEN conjunct2, THEN conjunct2, THEN conjunct2, rule_format, OF c]
  from w1 a have "copiedId (step initial (Copy True ''p'' ''1001'' 0 :: string event)) = Some ''1001''"
    and "copiedId (runTimeouts 1999 (step initial (Copy True ''p'' ''1001'' 0 :: string event))) = Some ''1001''"
    by blast+
  moreover from w2 b have "copiedId (runTimeouts 2000 (step initial (Copy True ''p'' ''1001'' 0 :: string event))) = None"
    by blast
  ultimately show ?thesis using c by blast
qed

text \<open>
  The claim as it was stated fails for two copies one second apart: two seconds after the
  first, the indicator of the second is cleared, while its own timeout is still pending. It
  fails as well where the clipboard is undefined: the indicator is not set.
\<close>

theorem handleCopy_superseded_counterexample:
  "copiedId (foldl step initial [Copy True ''p'' ''1001'' 0, Copy True ''q'' ''2001'' 1000 :: string event]) = Some ''2001'' \<and>
   copiedId (foldl step initial [Copy True ''p'' ''1001'' 0, Copy True ''q'' ''2001'' 1000, Timeouts 2000 :: string event]) = None \<and>
   timeouts (foldl step initial [Copy True ''p'' ''1001'' 0, Copy True ''q'' ''2001'' 1000, Timeouts 2000 :: string event]) = [3000] \<and>
   handleCopy False ''p'' ''1001'' 0 initial = Inl TypeError \<and>
   copiedId (foldl step initial [Copy False ''p'' ''1001'' 0 :: string event]) = None"
  by (simp add: handleCopy_def runTimeouts_def initial_def)

section \<open>Clearing the history\<close>

text \<open>
  C8. Without confirmation \<^verbatim>\<open>clearHistory\<close> changes nothing; with confirmation the message
  list is empty afterwards, whatever it held.
\<close>

theorem clearHistory_messages:
  "clearHistory False s = s \<and> messages (clearHistory True s) = []"
  by (simp add: clearHistory_def)

section \<open>Sessions: attached results\<close>

text \<open>
  C9. In every reachable state of a session whose calls resolve with values of their type, a
  message has a result exactly when it is an assistant message whose generation call
  succeeded, and then the result is the value the call resolved with. The user messages are
  those the user typed; they and the messages of failed calls have no result.
\<close>

theorem run_origins_result_iff:
  assumes "run_origins evs = (s, os)" and "list_all resolves_with_object evs"
  shows "s = run evs \<and> length os = length (messages s) \<and>
         (\<forall>i<length os.
            (result (messages s ! i) \<noteq> None \<longleftrightarrow>
               role (messages s ! i) = Assistant \<and> (\<exists>r. os ! i = Resolved r)) \<and>
            (\<forall>r. os ! i = Resolved r \<longrightarrow> result (messages s ! i) = Some r) \<and>
            (role (messages s ! i) = User \<longleftrightarrow> os ! i = Typed) \<and>
            (os ! i = Typed \<or> os ! i = Rejected \<longrightarrow> result (messages s ! i) = None))"
proof -
  have s: "s = run evs"
    using assms(1) run_origins_fst [of evs] by simp
  have ok: "list_all2 origin_ok (messages s) os"
    using assms(1) run_origins_ok [of evs] by simp
  then have len: "length os = length (messages s)"
    by (simp add: list_all2_lengthD)
  have ty: "\<forall>r. Resolved r \<in> set os \<longrightarrow> is_JObj r"
    using assms run_origins_typed [of evs] by simp
  have "\<And>i. i < length os \<Longrightarrow>
            (result (messages s ! i) \<noteq> None \<longleftrightarrow>
               role (messages s ! i) = Assistant \<and> (\<exists>r. os ! i = Resolved r)) \<and>
            (\<forall>r. os ! i = Resolved r \<longrightarrow> result (messages s ! i) = Some r) \<and>
            (role (messages s ! i) = User \<longleftrightarrow> os ! i = Typed) \<and>
            (os ! i = Typed \<or> os ! i = Rejected \<longrightarrow> result (messages s ! i) = None)"
  proof -
    fix i assume i: "i < length os"
    with ok have o: "origin_ok (messages s ! i) (os ! i)"
      by (simp add: list_all2_nthD2)
    from i ty have n: "\<forall>r. os ! i = Resolved r \<longrightarrow> r \<noteq> JNull"
      by (metis is_JObj.simps(2) nth_mem)
    show "(result (messages s ! i) \<noteq> None \<longleftrightarrow>
               role (messages s ! i) = Assistant \<and> (\<exists>r. os ! i = Resolved r)) \<and>
            (\<forall>r. os ! i = Resolved r \<longrightarrow> result (messages s ! i) = Some r) \<and>
            (role (messages s ! i) = User \<longleftrightarrow> os ! i = Typed) \<and>
            (os ! i = Typed \<or> os ! i = Rejected \<longrightarrow> result (messages s ! i) = None)"
      using o n by (cases "os ! i") auto
  qed
  with s len show ?thesis by blast
qed

theorem run_origins_result_iff_witness:
  "list_all resolves_with_object two_turn_session \<and>
   run_origins two_turn_session = (run two_turn_session, [Typed, Resolved sample_clarification, Typed, Rejected]) \<and>
   map role (messages (run two_turn_session)) = [User, Assistant, User, Assistant] \<and>
   result (messages (run two_turn_session) ! 0) = None \<and>
   result (messages (run two_turn_session) ! 1) = Some sample_clarification \<and>
   result (messages (run two_turn_session) ! 2) = None \<and>
   result (messages (run two_turn_session) ! 3) = None"
proof -
  have t: "list_all resolves_with_object two_turn_session"
    by (simp add: two_turn_session_def sample_clarification_def)
  have r: "run_origins two_turn_session = (run two_turn_session, [Typed, Resolved sample_clarification, Typed, Rejected])"
    by (simp add: two_turn_session_def run_origins_def run_def initial_def handleSend_def
        handleSend_settled_def trim_def is_whitespace_def Let_def)
  have m: "map role (messages (run two_turn_session)) = [User, Assistant, User, Assistant]"
    by (simp add: two_turn_session_def eval_defs)
  from run_origins_result_iff [OF r t]
  have "result (messages (run two_turn_session) ! 0) = None \<and>
        result (messages (run two_turn_session) ! 1) = Some sample_clarification \<and>
        result (messages (run two_turn_session) ! 2) = None \<and>
        result (messages (run two_turn_session) ! 3) = None"
    by (simp add: All_less_Suc numeral_2_eq_2 numeral_3_eq_3)
  with t r m show ?thesis by blast
qed

section \<open>The generation client: empty and unvalidated responses\<close>

text \<open>
  C10. When the remote call resolves with an empty or absent text, \<^verbatim>\<open>generatePrompt\<close> parses
  \<^verbatim>\<open>{}\<close> in its place and returns the empty object, which has none of the fields of a
  \<^verbatim>\<open>PromptResult\<close>. Every other text that is JSON is returned as the value it denotes,
  whatever its shape.
\<close>

theorem generatePrompt_empty_text:
  assumes "G (or_else key []) (generateContent_params u t h) = Inr response"
    and "P ''{}'' = Some (JObj [])"
  shows "(text_r response = None \<or> text_r response = Some [] \<longrightarrow>
            generatePrompt P G key u t h = Inr (JObj []) \<and> \<not> is_PromptResult (JObj [])) \<and>
         (\<forall>txt j. text_r response = Some txt \<and> txt \<noteq> [] \<and> P txt = Some j \<longrightarrow>
            generatePrompt P G key u t h = Inr j)"
  using assms by (auto simp: generatePrompt_def has_field_def)

theorem generatePrompt_empty_text_witness:
  "generatePrompt JSON_parse_sample (remote_returning None) None ''hi'' GENERAL [] = Inr (JObj []) \<and>
   generatePrompt JSON_parse_sample (remote_returning (Some ''[]'')) (Some ''k'') ''hi'' CLAUDE [] = Inr (JArr [])"
proof
  have g: "remote_returning None (or_else None []) (generateContent_params ''hi'' GENERAL []) = Inr \<lparr> text_r = None \<rparr>"
    by (simp add: remote_returning_def)
  have p: "JSON_parse_sample ''{}'' = Some (JObj [])"
    by (simp add: JSON_parse_sample_def)
  from generatePrompt_empty_text [of "remote_returning None" None "''hi''" GENERAL "[]" "\<lparr> text_r = None \<rparr>" JSON_parse_sample] g p
  show "generatePrompt JSON_parse_sample (remote_returning None) None ''hi'' GENERAL [] = Inr (JObj [])"
    by simp
next
  have g: "remote_returning (Some ''[]'') (or_else (Some ''k'') []) (generateContent_params ''hi'' CLAUDE []) = Inr \<lparr> text_r = Some ''[]'' \<rparr>"
    by (simp add: remote_returning_def)
  have p: "JSON_parse_sample ''{}'' = Some (JObj [])"
    by (simp add: JSON_parse_sample_def)
  have q: "JSON_parse_sample ''[]'' = Some (JArr [])"
    by (simp add: JSON_parse_sample_def)
  from generatePrompt_empty_text [of "remote_returning (Some ''[]'')" "Some ''k''" "''hi''" CLAUDE "[]" "\<lparr> text_r = Some ''[]'' \<rparr>" JSON_parse_sample] g p q
  show "generatePrompt JSON_parse_sample (remote_returning (Some ''[]'')) (Some ''k'') ''hi'' CLAUDE [] = Inr (JArr [])"
    by simp
qed

end
